theory Spec2Isabelle
  imports Complex_Main "HOL-Library.Word"
begin

section \<open>The input records and the flat table\<close>

text \<open>
  A Spark column value is nullable: a value of type \<open>'a option\<close>, \<open>None\<close> for SQL
  NULL. A field that the JSON record does not have is NULL in the inferred schema, and
  reading a field of a NULL struct gives NULL.
\<close>

record platforms =
  platforms_linux :: "bool option"
  platforms_mac :: "bool option"
  platforms_windows :: "bool option"

record data =
  data_appid :: "int option"
  data_name :: "string option"
  data_genre :: "string option"
  data_publisher :: "string option"
  data_developer :: "string option"
  data_type :: "string option"
  data_price :: "string option"
  data_initialprice :: "string option"
  data_discount :: "string option"
  data_required_age :: "string option"
  data_positive :: "string option"
  data_negative :: "string option"
  data_languages :: "string option"
  data_owners :: "string option"
  data_ccu :: "string option"
  data_platforms :: "platforms option"
  data_release_date :: "string option"

record steam_row =
  id_col :: "string option"
  data_col :: "data option"

text \<open>\<open>withColumn\<close> keeps the columns of its input and adds one: the flat row extends
  the input row.\<close>

record games_row = steam_row +
  app_id :: "int option"
  name :: "string option"
  genre_raw :: "string option"
  publisher :: "string option"
  developer :: "string option"
  type_col :: "string option"
  price_raw :: "string option"
  initialprice_raw :: "string option"
  discount_raw :: "string option"
  required_age_raw :: "string option"
  positive_raw :: "string option"
  negative_raw :: "string option"
  languages_raw :: "string option"
  owners_raw :: "string option"
  ccu :: "string option"
  platform_linux :: "bool option"
  platform_mac :: "bool option"
  platform_windows :: "bool option"
  release_date_raw :: "string option"

definition col_data :: "steam_row \<Rightarrow> (data \<Rightarrow> 'a option) \<Rightarrow> 'a option" where
  \<comment> \<open>\<open>F.col("data.f")\<close>\<close>
  "col_data r f = Option.bind (data_col r) f"

definition col_platforms :: "steam_row \<Rightarrow> (platforms \<Rightarrow> 'a option) \<Rightarrow> 'a option" where
  \<comment> \<open>\<open>F.col("data.platforms.f")\<close>\<close>
  "col_platforms r f = Option.bind (col_data r data_platforms) f"

definition build_games_row :: "steam_row \<Rightarrow> games_row" where
  "build_games_row r =
     \<lparr> id_col = id_col r,
       data_col = data_col r,
       app_id = col_data r data_appid,
       name = col_data r data_name,
       genre_raw = col_data r data_genre,
       publisher = col_data r data_publisher,
       developer = col_data r data_developer,
       type_col = col_data r data_type,
       price_raw = col_data r data_price,
       initialprice_raw = col_data r data_initialprice,
       discount_raw = col_data r data_discount,
       required_age_raw = col_data r data_required_age,
       positive_raw = col_data r data_positive,
       negative_raw = col_data r data_negative,
       languages_raw = col_data r data_languages,
       owners_raw = col_data r data_owners,
       ccu = col_data r data_ccu,
       platform_linux = col_platforms r platforms_linux,
       platform_mac = col_platforms r platforms_mac,
       platform_windows = col_platforms r platforms_windows,
       release_date_raw = col_data r data_release_date \<rparr>"

definition build_games_df :: "steam_row list \<Rightarrow> games_row list" where
  \<comment> \<open>A chain of \<open>withColumn\<close> calls and nothing else: one output row per input row.\<close>
  "build_games_df df = map build_games_row df"

section \<open>Regular expressions of the column functions\<close>

text \<open>
  The patterns of the source are sequences of quantified character classes, with one
  capture group at most and a one-character negative lookahead: \<^verbatim>\<open>,\<close>, \<^verbatim>\<open>/\<close>,
  \<^verbatim>\<open>-(\d)(?!\d)\<close>, \<^verbatim>\<open>(\d+)\<close> and \<^verbatim>\<open>,\s*\<close>. They are matched as
  \<open>java.util.regex\<close> does: left to right, a quantifier taking as much as it can and
  giving back when the rest of the pattern fails.
\<close>

datatype cclass = Lit char | Digit | Space

datatype quant = Once | Many0 | Many1 | NotNext

type_synonym item = "cclass \<times> quant \<times> bool"
  \<comment> \<open>class, quantifier, and whether the item is inside capture group 1\<close>

definition is_digit :: "char \<Rightarrow> bool" where
  \<comment> \<open>\<^verbatim>\<open>\d\<close>: \<^verbatim>\<open>[0-9]\<close>\<close>
  "is_digit c = (48 \<le> (of_char c :: nat) \<and> (of_char c :: nat) \<le> 57)"

definition is_space :: "char \<Rightarrow> bool" where
  \<comment> \<open>\<^verbatim>\<open>\s\<close>: \<^verbatim>\<open>[ \t\n\x0B\f\r]\<close>\<close>
  "is_space c = (c = CHR '' '' \<or> (9 \<le> (of_char c :: nat) \<and> (of_char c :: nat) \<le> 13))"

fun accepts :: "cclass \<Rightarrow> char \<Rightarrow> bool" where
  "accepts (Lit a) c = (c = a)"
| "accepts Digit c = is_digit c"
| "accepts Space c = is_space c"

definition capture :: "bool \<Rightarrow> char \<Rightarrow> string \<times> string \<Rightarrow> string \<times> string" where
  "capture g c m = (if g then (c # fst m, snd m) else m)"

text \<open>\<open>rmatch p s\<close> matches \<open>p\<close> at the start of \<open>s\<close>: the text of group 1 and the
  text left after the match, or \<open>None\<close>.\<close>

function rmatch :: "item list \<Rightarrow> string \<Rightarrow> (string \<times> string) option" where
  "rmatch [] s = Some ([], s)"
| "rmatch ((c, Once, g) # p) [] = None"
| "rmatch ((c, Once, g) # p) (x # xs) =
     (if accepts c x then map_option (capture g x) (rmatch p xs) else None)"
| "rmatch ((c, NotNext, g) # p) [] = rmatch p []"
| "rmatch ((c, NotNext, g) # p) (x # xs) =
     (if accepts c x then None else rmatch p (x # xs))"
| "rmatch ((c, Many0, g) # p) [] = rmatch p []"
| "rmatch ((c, Many0, g) # p) (x # xs) =
     (if accepts c x
      then (case rmatch ((c, Many0, g) # p) xs of
              Some m \<Rightarrow> Some (capture g x m)
            | None \<Rightarrow> rmatch p (x # xs))
      else rmatch p (x # xs))"
| "rmatch ((c, Many1, g) # p) [] = None"
| "rmatch ((c, Many1, g) # p) (x # xs) =
     (if accepts c x
      then map_option (capture g x) (rmatch ((c, Many0, g) # p) xs)
      else None)"
  by pat_completeness auto
termination
  by (relation "measure (\<lambda>(p, s). length p + length s)") auto

datatype rtok = RChr char | RGroup1

fun expand :: "rtok list \<Rightarrow> string \<Rightarrow> string" where
  \<comment> \<open>the replacement text, \<^verbatim>\<open>$1\<close> standing for group 1\<close>
  "expand [] g = []"
| "expand (RChr c # t) g = c # expand t g"
| "expand (RGroup1 # t) g = g @ expand t g"

text \<open>
  \<open>Matcher.replaceAll\<close>: the matches are found from left to right, each search
  starting where the last match ended (one character further after an empty match),
  and the text between matches is copied.
\<close>

function replace_all :: "item list \<Rightarrow> rtok list \<Rightarrow> string \<Rightarrow> string" where
  "replace_all p t [] = (case rmatch p [] of Some m \<Rightarrow> expand t (fst m) | None \<Rightarrow> [])"
| "replace_all p t (x # xs) =
     (case rmatch p (x # xs) of
        None \<Rightarrow> x # replace_all p t xs
      | Some m \<Rightarrow>
          if length (snd m) < length (x # xs)
          then expand t (fst m) @ replace_all p t (snd m)
          else expand t (fst m) @ x # replace_all p t xs)"
  by pat_completeness auto
termination
  by (relation "measure (\<lambda>(p, t, s). length s)") auto

definition regexp_replace :: "string option \<Rightarrow> item list \<Rightarrow> rtok list \<Rightarrow> string option" where
  \<comment> \<open>\<open>F.regexp_replace\<close>: NULL for a NULL input\<close>
  "regexp_replace col p t = map_option (replace_all p t) col"

fun find_first :: "item list \<Rightarrow> string \<Rightarrow> string option" where
  \<comment> \<open>\<open>Matcher.find\<close>: group 1 of the leftmost match\<close>
  "find_first p [] = map_option fst (rmatch p [])"
| "find_first p (x # xs) =
     (case rmatch p (x # xs) of Some m \<Rightarrow> Some (fst m) | None \<Rightarrow> find_first p xs)"

definition regexp_extract :: "string option \<Rightarrow> item list \<Rightarrow> string option" where
  \<comment> \<open>\<open>F.regexp_extract(col, p, 1)\<close>: the empty string when nothing matches, NULL for a
      NULL input\<close>
  "regexp_extract col p =
     map_option (\<lambda>s. case find_first p s of Some g \<Rightarrow> g | None \<Rightarrow> []) col"

text \<open>
  \<open>String.split(regex, -1)\<close>, which \<open>F.split\<close> calls: the text between the matches,
  the text after the last match included even when empty, the whole input when nothing
  matches. \<open>tok\<close> is the token read so far. A match that consumes nothing does not
  split here; the delimiter of the source starts with a comma and never matches so.
\<close>

function split_from :: "item list \<Rightarrow> string \<Rightarrow> string \<Rightarrow> string list" where
  "split_from p tok [] = [tok]"
| "split_from p tok (x # xs) =
     (case rmatch p (x # xs) of
        None \<Rightarrow> split_from p (tok @ [x]) xs
      | Some m \<Rightarrow>
          if length (snd m) < length (x # xs)
          then tok # split_from p [] (snd m)
          else split_from p (tok @ [x]) xs)"
  by pat_completeness auto
termination
  by (relation "measure (\<lambda>(p, tok, s). length s)") auto

definition split_col :: "string option \<Rightarrow> item list \<Rightarrow> string list option" where
  \<comment> \<open>\<open>F.split\<close>: NULL for a NULL input\<close>
  "split_col col p = map_option (split_from p []) col"

definition explode :: "'a list option \<Rightarrow> 'a list" where
  \<comment> \<open>\<open>F.explode\<close>: one row per element, no row for a NULL or an empty array\<close>
  "explode arr = (case arr of None \<Rightarrow> [] | Some xs \<Rightarrow> xs)"

section \<open>Numeric columns\<close>

type_synonym long = "64 word"
type_synonym integer32 = "32 word"

text \<open>
  The cast of a string column to an integral type, outside ANSI mode (the source sets no
  configuration): characters up to the space and DEL are trimmed at both ends, a sign
  may lead, the digits are read up to the first dot, what follows the dot has to be
  digits and is dropped, and a text that is not of this shape, or whose value does not
  fit the type, gives NULL.
\<close>

definition is_ws_or_ctl :: "char \<Rightarrow> bool" where
  "is_ws_or_ctl c = ((of_char c :: nat) \<le> 32 \<or> (of_char c :: nat) = 127)"

definition trim_ws :: "string \<Rightarrow> string" where
  "trim_ws s = rev (dropWhile is_ws_or_ctl (rev (dropWhile is_ws_or_ctl s)))"

definition digits_val :: "string \<Rightarrow> nat" where
  "digits_val ds = foldl (\<lambda>acc c. 10 * acc + ((of_char c :: nat) - 48)) 0 ds"

definition parse_integral :: "string \<Rightarrow> int option" where
  "parse_integral s =
     (let t = trim_ws s in
      if t = [] then None
      else
        let signed = (hd t = CHR ''-'' \<or> hd t = CHR ''+'');
            body = (if signed then tl t else t);
            ip = takeWhile (\<lambda>c. c \<noteq> CHR ''.'') body;
            fp = drop (Suc (length ip)) body
        in if signed \<and> body = [] then None
           else if \<not> list_all is_digit ip \<or> \<not> list_all is_digit fp then None
           else Some ((if hd t = CHR ''-'' then - 1 else 1) * int (digits_val ip)))"

definition cast_long :: "string option \<Rightarrow> long option" where
  \<comment> \<open>\<open>.cast(T.LongType())\<close>\<close>
  "cast_long col =
     Option.bind col (\<lambda>s. Option.bind (parse_integral s) (\<lambda>v.
       if - (2 ^ 63) \<le> v \<and> v < 2 ^ 63 then Some (word_of_int v) else None))"

definition cast_integer :: "string option \<Rightarrow> integer32 option" where
  \<comment> \<open>\<open>.cast(T.IntegerType())\<close>\<close>
  "cast_integer col =
     Option.bind col (\<lambda>s. Option.bind (parse_integral s) (\<lambda>v.
       if - (2 ^ 31) \<le> v \<and> v < 2 ^ 31 then Some (word_of_int v) else None))"

definition cast_double :: "(string \<Rightarrow> 'd option) \<Rightarrow> string option \<Rightarrow> 'd option" where
  \<comment> \<open>\<open>.cast(T.DoubleType())\<close>. The doubles are not modelled: \<open>parse_double\<close> stands for
      the reading of a text as a double, \<open>None\<close> where the text is not a number.\<close>
  "cast_double parse_double col = Option.bind col parse_double"

definition price :: "(string \<Rightarrow> 'd option) \<Rightarrow> games_row \<Rightarrow> 'd option" where
  "price parse_double r = cast_double parse_double (price_raw r)"

definition initialprice :: "(string \<Rightarrow> 'd option) \<Rightarrow> games_row \<Rightarrow> 'd option" where
  "initialprice parse_double r = cast_double parse_double (initialprice_raw r)"

definition discount :: "(string \<Rightarrow> 'd option) \<Rightarrow> games_row \<Rightarrow> 'd option" where
  "discount parse_double r = cast_double parse_double (discount_raw r)"

definition positive :: "games_row \<Rightarrow> long option" where
  "positive r = cast_long (positive_raw r)"

definition negative :: "games_row \<Rightarrow> long option" where
  "negative r = cast_long (negative_raw r)"

definition pat_digits :: "item list" where
  \<comment> \<open>\<^verbatim>\<open>(\d+)\<close>\<close>
  "pat_digits = [(Digit, Many1, True)]"

definition required_age_str :: "string option \<Rightarrow> string option" where
  \<comment> \<open>\<open>.cast(T.StringType())\<close> of a text column\<close>
  "required_age_str raw = raw"

definition required_age :: "string option \<Rightarrow> integer32 option" where
  "required_age raw = cast_integer (regexp_extract (required_age_str raw) pat_digits)"

section \<open>Release date\<close>

definition pat_comma :: "item list" where
  \<comment> \<open>\<^verbatim>\<open>,\<close>\<close>
  "pat_comma = [(Lit CHR '','', Once, False)]"

definition pat_slash :: "item list" where
  \<comment> \<open>\<^verbatim>\<open>/\<close>\<close>
  "pat_slash = [(Lit CHR ''/'', Once, False)]"

definition pat_pad :: "item list" where
  \<comment> \<open>\<^verbatim>\<open>-(\d)(?!\d)\<close>\<close>
  "pat_pad = [(Lit CHR ''-'', Once, False), (Digit, Once, True), (Digit, NotNext, False)]"

definition rep_pad :: "rtok list" where
  \<comment> \<open>\<^verbatim>\<open>-0$1\<close>\<close>
  "rep_pad = [RChr CHR ''-'', RChr CHR ''0'', RGroup1]"

definition release_date_clean :: "string option \<Rightarrow> string option" where
  \<comment> \<open>steps 4.2.1 to 4.2.3, each reading the column the step before wrote\<close>
  "release_date_clean raw =
     regexp_replace
       (regexp_replace
          (regexp_replace raw pat_comma [])
          pat_slash [RChr CHR ''-''])
       pat_pad rep_pad"

record date =
  year :: nat
  month :: nat
  day :: nat

datatype ftok = MMM | Fd | Fdd | FMM | Fyyyy | FLit char

definition fmt_MMM_d_yyyy :: "ftok list" where
  \<comment> \<open>\<^verbatim>\<open>"MMM d yyyy"\<close>\<close>
  "fmt_MMM_d_yyyy = [MMM, FLit CHR '' '', Fd, FLit CHR '' '', Fyyyy]"

definition fmt_MMM_dd_yyyy :: "ftok list" where
  \<comment> \<open>\<^verbatim>\<open>"MMM dd yyyy"\<close>\<close>
  "fmt_MMM_dd_yyyy = [MMM, FLit CHR '' '', Fdd, FLit CHR '' '', Fyyyy]"

definition fmt_yyyy_MM_dd :: "ftok list" where
  \<comment> \<open>\<^verbatim>\<open>"yyyy-MM-dd"\<close>\<close>
  "fmt_yyyy_MM_dd = [Fyyyy, FLit CHR ''-'', FMM, FLit CHR ''-'', Fdd]"

definition fmt_dd_MMM_yyyy :: "ftok list" where
  \<comment> \<open>\<^verbatim>\<open>"dd MMM yyyy"\<close>\<close>
  "fmt_dd_MMM_yyyy = [Fdd, FLit CHR '' '', MMM, FLit CHR '' '', Fyyyy]"

definition fmt_d_MMM_yyyy :: "ftok list" where
  \<comment> \<open>\<^verbatim>\<open>"d MMM yyyy"\<close>\<close>
  "fmt_d_MMM_yyyy = [Fd, FLit CHR '' '', MMM, FLit CHR '' '', Fyyyy]"

definition date_formats :: "ftok list list" where
  "date_formats =
     [fmt_MMM_d_yyyy, fmt_MMM_dd_yyyy, fmt_yyyy_MM_dd, fmt_dd_MMM_yyyy, fmt_d_MMM_yyyy]"

datatype spark_error = SparkUpgradeException

fun coalesce :: "(spark_error + 'a option) list \<Rightarrow> spark_error + 'a option" where
  \<comment> \<open>\<open>F.coalesce\<close>: the arguments are evaluated in order up to the first that is not
      NULL; an argument that raises ends the evaluation\<close>
  "coalesce [] = Inr None"
| "coalesce (Inl e # cs) = Inl e"
| "coalesce (Inr None # cs) = coalesce cs"
| "coalesce (Inr (Some v) # cs) = Inr (Some v)"

text \<open>
  \<open>F.to_date\<close> belongs to the Spark library. The pipeline takes it as the parameter
  \<open>td\<close>: from the text and the format to a date, to NULL where the text does not
  parse, or to an exception. A NULL column gives NULL.
\<close>

type_synonym date_parser = "string \<Rightarrow> ftok list \<Rightarrow> spark_error + date option"

definition to_date_col :: "date_parser \<Rightarrow> string option \<Rightarrow> ftok list \<Rightarrow> spark_error + date option" where
  "to_date_col td col f = (case col of None \<Rightarrow> Inr None | Some s \<Rightarrow> td s f)"

definition release_date_parsed :: "date_parser \<Rightarrow> string option \<Rightarrow> spark_error + date option" where
  \<comment> \<open>step 4.2.4\<close>
  "release_date_parsed td clean =
     coalesce
       [to_date_col td clean fmt_MMM_d_yyyy,
        to_date_col td clean fmt_MMM_dd_yyyy,
        to_date_col td clean fmt_yyyy_MM_dd,
        to_date_col td clean fmt_dd_MMM_yyyy,
        to_date_col td clean fmt_d_MMM_yyyy]"

definition release_date_safety :: "date option \<Rightarrow> date option" where
  \<comment> \<open>step 4.2.5: \<open>F.when(col.isNull(), None).otherwise(col)\<close>\<close>
  "release_date_safety parsed = (if parsed = None then None else parsed)"

definition release_date_pipeline :: "date_parser \<Rightarrow> string option \<Rightarrow> spark_error + date option" where
  \<comment> \<open>steps 4.2.1 to 4.2.5; the safety step sees the parsed column only when the
      parsing has not raised\<close>
  "release_date_pipeline td raw =
     (case release_date_parsed td (release_date_clean raw) of
        Inl e \<Rightarrow> Inl e
      | Inr parsed \<Rightarrow> Inr (release_date_safety parsed))"

subsection \<open>A model of \<open>to_date\<close> for the five formats\<close>

text \<open>
  The source sets no configuration, so \<open>to_date\<close> runs with the defaults of Spark 3:
  the text is read by the new parser (\<open>java.time\<close>); where that fails, the legacy parser
  (\<open>SimpleDateFormat\<close>, not lenient) is asked, and if it reads the text the library
  raises \<open>SparkUpgradeException\<close> (parser policy \<open>EXCEPTION\<close>); where both fail the
  result is NULL.

  The new parser reads the pattern letters so: \<open>MMM\<close> an English month abbreviation in
  any case, \<open>d\<close> a run of digits, \<open>dd\<close> and \<open>MM\<close> two digits, \<open>yyyy\<close> four digits, any
  other character itself; the whole text is read and the day exists in the calendar.
  Years written with a sign are outside the model.
\<close>

definition to_lower :: "char \<Rightarrow> char" where
  "to_lower c =
     (if 65 \<le> (of_char c :: nat) \<and> (of_char c :: nat) \<le> 90
      then char_of ((of_char c :: nat) + 32) else c)"

definition month_names :: "string list" where
  "month_names =
     [''jan'', ''feb'', ''mar'', ''apr'', ''may'', ''jun'',
      ''jul'', ''aug'', ''sep'', ''oct'', ''nov'', ''dec'']"

definition month_of_abbrev :: "string \<Rightarrow> nat option" where
  "month_of_abbrev s = map_of (zip month_names [1 ..< 13]) (map to_lower s)"

definition leap_year :: "nat \<Rightarrow> bool" where
  "leap_year y = (y mod 4 = 0 \<and> (y mod 100 \<noteq> 0 \<or> y mod 400 = 0))"

definition days_in_month :: "nat \<Rightarrow> nat \<Rightarrow> nat" where
  "days_in_month y m =
     (if m = 2 then (if leap_year y then 29 else 28)
      else if m \<in> {4, 6, 9, 11} then 30 else 31)"

definition valid_date :: "date \<Rightarrow> bool" where
  \<comment> \<open>a day of the proleptic Gregorian calendar; the year 0 is one of its years\<close>
  "valid_date d =
     (1 \<le> month d \<and> month d \<le> 12 \<and>
      1 \<le> day d \<and> day d \<le> days_in_month (year d) (month d))"

definition fixed_digits :: "nat \<Rightarrow> string \<Rightarrow> (nat \<times> string) option" where
  \<comment> \<open>\<open>n\<close> digits and the text after them\<close>
  "fixed_digits n s =
     (if n \<le> length s \<and> list_all is_digit (take n s)
      then Some (digits_val (take n s), drop n s) else None)"

fun parse_fmt :: "ftok list \<Rightarrow> string \<Rightarrow> date \<Rightarrow> date option" where
  "parse_fmt [] s acc = (if s = [] then Some acc else None)"
| "parse_fmt (FLit c # f) s acc =
     (case s of [] \<Rightarrow> None | x # xs \<Rightarrow> if x = c then parse_fmt f xs acc else None)"
| "parse_fmt (MMM # f) s acc =
     (if length s < 3 then None
      else case month_of_abbrev (take 3 s) of
             None \<Rightarrow> None
           | Some m \<Rightarrow> parse_fmt f (drop 3 s) (acc\<lparr>month := m\<rparr>))"
| "parse_fmt (FMM # f) s acc =
     (case fixed_digits 2 s of
        None \<Rightarrow> None
      | Some (m, rest) \<Rightarrow> parse_fmt f rest (acc\<lparr>month := m\<rparr>))"
| "parse_fmt (Fdd # f) s acc =
     (case fixed_digits 2 s of
        None \<Rightarrow> None
      | Some (d, rest) \<Rightarrow> parse_fmt f rest (acc\<lparr>day := d\<rparr>))"
| "parse_fmt (Fd # f) s acc =
     (let ds = takeWhile is_digit s in
      if ds = [] \<or> 19 < length ds then None
      else parse_fmt f (drop (length ds) s) (acc\<lparr>day := digits_val ds\<rparr>))"
| "parse_fmt (Fyyyy # f) s acc =
     (let ds = takeWhile is_digit s in
      if length ds \<noteq> 4 then None
      else parse_fmt f (drop 4 s) (acc\<lparr>year := digits_val ds\<rparr>))"

definition formatter_parse :: "string \<Rightarrow> ftok list \<Rightarrow> date option" where
  \<comment> \<open>the new parser\<close>
  "formatter_parse s f =
     (case parse_fmt f s \<lparr>year = 0, month = 0, day = 0\<rparr> of
        None \<Rightarrow> None
      | Some d \<Rightarrow> if valid_date d then Some d else None)"

text \<open>
  The legacy parser skips spaces and tabs before a field, reads a number of any width
  for \<open>d\<close>, \<open>dd\<close>, \<open>MM\<close> and \<open>yyyy\<close>, takes the full month name or its abbreviation for
  \<open>MMM\<close>, in any case, and leaves the text after the last field unread. Not lenient, it
  refuses a day that its calendar does not have: Julian before 1582, without the ten
  days dropped in October 1582, and no year below 1.
\<close>

definition long_month_names :: "string list" where
  "long_month_names =
     [''january'', ''february'', ''march'', ''april'', ''may'', ''june'',
      ''july'', ''august'', ''september'', ''october'', ''november'', ''december'']"

definition skip_blanks :: "string \<Rightarrow> string" where
  "skip_blanks s = dropWhile (\<lambda>c. c = CHR '' '' \<or> (of_char c :: nat) = 9) s"

definition match_name :: "string list \<Rightarrow> string \<Rightarrow> (nat \<times> string) option" where
  \<comment> \<open>the month whose name the text starts with, and the text after the name\<close>
  "match_name names t =
     (case filter (\<lambda>(m, n). map to_lower (take (length n) t) = n) (zip [1 ..< 13] names) of
        [] \<Rightarrow> None
      | (m, n) # _ \<Rightarrow> Some (m, drop (length n) t))"

definition legacy_month :: "string \<Rightarrow> (nat \<times> string) option" where
  "legacy_month s =
     (let t = skip_blanks s in
      case match_name long_month_names t of
        Some r \<Rightarrow> Some r
      | None \<Rightarrow> match_name month_names t)"

definition legacy_number :: "string \<Rightarrow> (nat \<times> string) option" where
  \<comment> \<open>a number with a minus sign, or of more than nine digits, is no day, month or
      year of the calendar\<close>
  "legacy_number s =
     (let t = skip_blanks s; ds = takeWhile is_digit t in
      if ds = [] \<or> 9 < length ds then None
      else Some (digits_val ds, drop (length ds) t))"

fun legacy_fmt :: "ftok list \<Rightarrow> string \<Rightarrow> date \<Rightarrow> date option" where
  "legacy_fmt [] s acc = Some acc"
| "legacy_fmt (FLit c # f) s acc =
     (case s of [] \<Rightarrow> None | x # xs \<Rightarrow> if x = c then legacy_fmt f xs acc else None)"
| "legacy_fmt (MMM # f) s acc =
     (case legacy_month s of
        None \<Rightarrow> None
      | Some (m, rest) \<Rightarrow> legacy_fmt f rest (acc\<lparr>month := m\<rparr>))"
| "legacy_fmt (FMM # f) s acc =
     (case legacy_number s of
        None \<Rightarrow> None
      | Some (m, rest) \<Rightarrow> legacy_fmt f rest (acc\<lparr>month := m\<rparr>))"
| "legacy_fmt (Fdd # f) s acc =
     (case legacy_number s of
        None \<Rightarrow> None
      | Some (d, rest) \<Rightarrow> legacy_fmt f rest (acc\<lparr>day := d\<rparr>))"
| "legacy_fmt (Fd # f) s acc =
     (case legacy_number s of
        None \<Rightarrow> None
      | Some (d, rest) \<Rightarrow> legacy_fmt f rest (acc\<lparr>day := d\<rparr>))"
| "legacy_fmt (Fyyyy # f) s acc =
     (case legacy_number s of
        None \<Rightarrow> None
      | Some (y, rest) \<Rightarrow> legacy_fmt f rest (acc\<lparr>year := y\<rparr>))"

definition legacy_days_in_month :: "nat \<Rightarrow> nat \<Rightarrow> nat" where
  "legacy_days_in_month y m =
     (if m = 2 then (if (if y < 1582 then y mod 4 = 0 else leap_year y) then 29 else 28)
      else if m \<in> {4, 6, 9, 11} then 30 else 31)"

definition legacy_valid :: "date \<Rightarrow> bool" where
  "legacy_valid d =
     (1 \<le> year d \<and> int (year d) \<le> 292278994 \<and> 1 \<le> month d \<and> month d \<le> 12 \<and>
      1 \<le> day d \<and> day d \<le> legacy_days_in_month (year d) (month d) \<and>
      \<not> (year d = 1582 \<and> month d = 10 \<and> 5 \<le> day d \<and> day d \<le> 14))"

definition legacy_parse :: "string \<Rightarrow> ftok list \<Rightarrow> date option" where
  "legacy_parse s f =
     (case legacy_fmt f s \<lparr>year = 1970, month = 1, day = 1\<rparr> of
        None \<Rightarrow> None
      | Some d \<Rightarrow> if legacy_valid d then Some d else None)"

definition to_date :: date_parser where
  "to_date s f =
     (case formatter_parse s f of
        Some d \<Rightarrow> Inr (Some d)
      | None \<Rightarrow>
          (case legacy_parse s f of
             Some d \<Rightarrow> Inl SparkUpgradeException
           | None \<Rightarrow> Inr None))"

section \<open>Year, month and period\<close>

definition release_year :: "date option \<Rightarrow> int option" where
  \<comment> \<open>\<open>F.year\<close>\<close>
  "release_year parsed = map_option (\<lambda>d. int (year d)) parsed"

definition release_month :: "date option \<Rightarrow> int option" where
  \<comment> \<open>\<open>F.month\<close>\<close>
  "release_month parsed = map_option (\<lambda>d. int (month d)) parsed"

definition COVID_START_YEAR :: int where
  "COVID_START_YEAR = 2019"

definition COVID_END_YEAR :: int where
  "COVID_END_YEAR = 2021"

definition covid_period :: "int option \<Rightarrow> string" where
  \<comment> \<open>the \<open>when\<close> chain: the first branch whose condition is true; a comparison with
      NULL is not true, and the NULL year is taken by the first branch\<close>
  "covid_period ry =
     (case ry of
        None \<Rightarrow> ''unknown''
      | Some y \<Rightarrow>
          if y < COVID_START_YEAR then ''pre_covid''
          else if y \<ge> COVID_START_YEAR \<and> y \<le> COVID_END_YEAR then ''covid''
          else ''post_covid'')"

section \<open>Reviews\<close>

definition total_reviews :: "long option \<Rightarrow> long option \<Rightarrow> long option" where
  \<comment> \<open>\<open>(positive + negative).cast(LongType)\<close>: NULL when an operand is NULL; the sum of
      two longs wraps around\<close>
  "total_reviews p n =
     (case p of
        None \<Rightarrow> None
      | Some a \<Rightarrow> (case n of None \<Rightarrow> None | Some b \<Rightarrow> Some (a + b)))"

definition positive_ratio :: "long option \<Rightarrow> long option \<Rightarrow> rat option" where
  \<comment> \<open>\<open>F.when(total_reviews > 0, positive.cast(double) / total_reviews).otherwise(None)\<close>;
      the quotient is the exact one, the rounding of the double is not modelled\<close>
  "positive_ratio p t =
     (case t of
        None \<Rightarrow> None
      | Some tv \<Rightarrow>
          if 0 < sint tv
          then (case p of
                  None \<Rightarrow> None
                | Some pv \<Rightarrow> Some (of_int (sint pv) / of_int (sint tv)))
          else None)"

section \<open>Genres\<close>

definition pat_genre_sep :: "item list" where
  \<comment> \<open>\<^verbatim>\<open>,\s*\<close>\<close>
  "pat_genre_sep = [(Lit CHR '','', Once, False), (Space, Many0, False)]"

definition genre_array :: "string option \<Rightarrow> string list option" where
  "genre_array raw = split_col raw pat_genre_sep"

definition genres_of :: "string option \<Rightarrow> string list" where
  \<comment> \<open>the genres of one game in \<open>genres_exploded_df\<close>: the elements of \<open>genre_array\<close>
      that pass the filter \<open>genre IS NOT NULL AND genre != ""\<close>\<close>
  "genres_of raw = filter (\<lambda>g. g \<noteq> []) (explode (genre_array raw))"

definition genres_exploded_df :: "games_row list \<Rightarrow> (games_row \<times> string) list" where
  "genres_exploded_df df = concat (map (\<lambda>r. map (Pair r) (genres_of (genre_raw r))) df)"

section \<open>The cleaning of the date, said directly\<close>

text \<open>The three steps of the cleaning as functions on the text, without regular
  expressions; the column functions of the source are compared with them below.\<close>

definition remove_commas :: "string \<Rightarrow> string" where
  "remove_commas s = filter (\<lambda>c. c \<noteq> CHR '','') s"

definition slashes_to_dashes :: "string \<Rightarrow> string" where
  "slashes_to_dashes s = map (\<lambda>c. if c = CHR ''/'' then CHR ''-'' else c) s"

definition single_digit_next :: "string \<Rightarrow> bool" where
  "single_digit_next s =
     (case s of [] \<Rightarrow> False
      | d # rest \<Rightarrow> is_digit d \<and> (case rest of [] \<Rightarrow> True | e # _ \<Rightarrow> \<not> is_digit e))"

fun pad_single_digits :: "string \<Rightarrow> string" where
  "pad_single_digits [] = []"
| "pad_single_digits [c] = [c]"
| "pad_single_digits (c # d # rest) =
     (if c = CHR ''-'' \<and> single_digit_next (d # rest)
      then CHR ''-'' # CHR ''0'' # d # pad_single_digits rest
      else c # pad_single_digits (d # rest))"

section \<open>The split of the genres, said directly\<close>

text \<open>The text is cut at every comma and the whitespace after the comma goes with it;
  \<open>tok\<close> is the piece read so far.\<close>

function split_comma_ws :: "string \<Rightarrow> string \<Rightarrow> string list" where
  "split_comma_ws tok [] = [tok]"
| "split_comma_ws tok (x # xs) =
     (if x = CHR '',''
      then tok # split_comma_ws [] (dropWhile is_space xs)
      else split_comma_ws (tok @ [x]) xs)"
  by pat_completeness auto
termination
  by (relation "measure (\<lambda>(tok, s). length s)")
    (auto simp: length_dropWhile_le less_Suc_eq_le)

section \<open>Example records\<close>

definition no_platforms :: data where
  \<comment> \<open>a record of the input without the \<open>platforms\<close> object\<close>
  "no_platforms =
     \<lparr> data_appid = Some 10, data_name = Some ''Counter-Strike'', data_genre = Some ''Action'',
       data_publisher = None, data_developer = None, data_type = None, data_price = Some ''999'',
       data_initialprice = Some ''999'', data_discount = Some ''0'', data_required_age = Some ''0'',
       data_positive = Some ''90'', data_negative = Some ''10'', data_languages = None,
       data_owners = None, data_ccu = None, data_platforms = None,
       data_release_date = Some ''2000/11/1'' \<rparr>"

definition no_linux_flag :: data where
  \<comment> \<open>the same record with a \<open>platforms\<close> object that has no \<open>linux\<close> field\<close>
  "no_linux_flag =
     no_platforms \<lparr> data_platforms :=
       Some \<lparr> platforms_linux = None, platforms_mac = Some False, platforms_windows = Some True \<rparr> \<rparr>"

definition row_without_id :: steam_row where
  "row_without_id = \<lparr> id_col = None, data_col = Some no_platforms \<rparr>"

definition row_with_id :: steam_row where
  "row_with_id = \<lparr> id_col = Some ''10'', data_col = Some no_linux_flag \<rparr>"

definition row_null_data :: steam_row where
  "row_null_data = \<lparr> id_col = Some ''20'', data_col = None \<rparr>"

section \<open>Properties of the period, the safety step, the flattening and the reviews\<close>

text \<open>
  C2. The period of a record is one of four distinct labels and the year decides which:
  \<open>unknown\<close> exactly for the NULL year, \<open>pre_covid\<close> (the "pre" bucket) exactly for a year
  below 2019, \<open>covid\<close> (the "during" bucket) exactly for a year from 2019 to 2021, and
  \<open>post_covid\<close> (the "post" bucket) exactly for a year above 2021. So every year has a
  bucket and no year has two; 2018 is pre, 2019 and 2021 are during, 2022 is post and the
  NULL year is unknown.
\<close>

theorem covid_period_buckets:
  "covid_period ry \<in> {''unknown'', ''pre_covid'', ''covid'', ''post_covid''}
   \<and> (covid_period ry = ''unknown'' \<longleftrightarrow> ry = None)
   \<and> (covid_period ry = ''pre_covid'' \<longleftrightarrow> (\<exists>y. ry = Some y \<and> y < 2019))
   \<and> (covid_period ry = ''covid'' \<longleftrightarrow> (\<exists>y. ry = Some y \<and> 2019 \<le> y \<and> y \<le> 2021))
   \<and> (covid_period ry = ''post_covid'' \<longleftrightarrow> (\<exists>y. ry = Some y \<and> 2021 < y))
   \<and> distinct [''unknown'', ''pre_covid'', ''covid'', ''post_covid'']
   \<and> covid_period (Some 2018) = ''pre_covid''
   \<and> covid_period (Some 2019) = ''covid''
   \<and> covid_period (Some 2021) = ''covid''
   \<and> covid_period (Some 2022) = ''post_covid''
   \<and> covid_period None = ''unknown''"
  by (cases ry) (auto simp: covid_period_def COVID_START_YEAR_def COVID_END_YEAR_def)

text \<open>The year 2020 is in the "during" bucket and in no other.\<close>

theorem covid_period_buckets_witness:
  "covid_period (Some 2020) = ''covid'' \<and> covid_period (Some 2020) \<noteq> ''pre_covid''
   \<and> covid_period (Some 2020) \<noteq> ''post_covid'' \<and> covid_period (Some 2020) \<noteq> ''unknown''"
  using covid_period_buckets [of "Some 2020"] by simp

text \<open>
  C10. The safety step after the parsing changes nothing: it returns the parsed date it
  is given, NULL or not, so a column is the same after it, and the date pipeline with
  the step equals the pipeline without it.
\<close>

theorem release_date_safety_identity:
  "release_date_safety parsed = parsed
   \<and> map release_date_safety column = column
   \<and> release_date_pipeline td raw = release_date_parsed td (release_date_clean raw)"
  by (simp add: release_date_safety_def release_date_pipeline_def map_idI split: sum.splits)

text \<open>
  C6, as the code has it. The flattening drops no record and counts none: the output
  has one row per input record, in the same order, each built from its own record and
  carrying the identifier the record had, NULL when the record has none.
\<close>

theorem build_games_df_keeps_every_row:
  "length (build_games_df df) = length df
   \<and> map id_col (build_games_df df) = map id_col df
   \<and> (\<forall>i < length df. build_games_df df ! i = build_games_row (df ! i))"
  by (simp add: build_games_df_def build_games_row_def comp_def)

text \<open>Two records, the first without identifier: two rows, the first still there.\<close>

theorem build_games_df_keeps_every_row_witness:
  "length (build_games_df [row_without_id, row_with_id]) = 2
   \<and> build_games_df [row_without_id, row_with_id] ! 0 = build_games_row row_without_id"
  using build_games_df_keeps_every_row [of "[row_without_id, row_with_id]"] by simp

text \<open>
  C6 as stated fails: a table of one record without identifier gives a table of one row,
  its identifier NULL; the record is not dropped.
\<close>

theorem missing_id_not_dropped:
  "length (build_games_df [row_without_id]) = 1
   \<and> map id_col (build_games_df [row_without_id]) = [None]"
  by (simp add: build_games_df_def build_games_row_def row_without_id_def)

text \<open>
  C8, as the code has it. Each platform column is the flag read at its path
  \<open>data.platforms.*\<close>: the flag when the record has it, and NULL, not false, when the
  flag, the \<open>platforms\<close> object or \<open>data\<close> is absent.
\<close>

theorem platform_columns_copy_the_flags:
  "platform_windows (build_games_row r)
     = (case data_col r of None \<Rightarrow> None
        | Some d \<Rightarrow> (case data_platforms d of None \<Rightarrow> None | Some p \<Rightarrow> platforms_windows p))
   \<and> platform_mac (build_games_row r)
     = (case data_col r of None \<Rightarrow> None
        | Some d \<Rightarrow> (case data_platforms d of None \<Rightarrow> None | Some p \<Rightarrow> platforms_mac p))
   \<and> platform_linux (build_games_row r)
     = (case data_col r of None \<Rightarrow> None
        | Some d \<Rightarrow> (case data_platforms d of None \<Rightarrow> None | Some p \<Rightarrow> platforms_linux p))
   \<and> ((\<forall>d p. data_col r = Some d \<and> data_platforms d = Some p \<longrightarrow> platforms_windows p = None)
        \<longrightarrow> platform_windows (build_games_row r) = None)
   \<and> ((\<forall>d p. data_col r = Some d \<and> data_platforms d = Some p \<longrightarrow> platforms_mac p = None)
        \<longrightarrow> platform_mac (build_games_row r) = None)
   \<and> ((\<forall>d p. data_col r = Some d \<and> data_platforms d = Some p \<longrightarrow> platforms_linux p = None)
        \<longrightarrow> platform_linux (build_games_row r) = None)"
  by (simp add: build_games_row_def col_platforms_def col_data_def split: option.splits)

text \<open>A record with the Windows and Mac flags and no Linux flag: the Linux column is NULL.\<close>

theorem platform_columns_copy_the_flags_witness:
  "platform_linux (build_games_row row_with_id) = None
   \<and> platform_mac (build_games_row row_with_id) = Some False
   \<and> platform_windows (build_games_row row_with_id) = Some True"
  using platform_columns_copy_the_flags [of row_with_id]
  by (simp add: row_with_id_def no_linux_flag_def)

text \<open>
  C8 as stated fails: for a record without the \<open>platforms\<close> object the Windows column is
  NULL, which is not the value false.
\<close>

theorem absent_platform_flag_is_null:
  "platform_windows (build_games_row row_without_id) = None
   \<and> platform_windows (build_games_row row_without_id) \<noteq> Some False"
  by (simp add: build_games_row_def col_platforms_def col_data_def row_without_id_def
      no_platforms_def)

lemma sint_add_in_range:
  fixes a b :: long
  assumes "- (2 ^ 63) \<le> sint a + sint b" and "sint a + sint b < 2 ^ 63"
  shows "sint (a + b) = sint a + sint b"
  using assms by (simp add: sint_word_ariths signed_take_bit_int_eq_self)

text \<open>
  C3, as the code has it. \<open>total_reviews\<close> is the sum of \<open>positive\<close> and \<open>negative\<close> as
  longs when both are there, which is their sum as integers whenever that fits a long,
  and NULL when one of them is NULL. \<open>positive_ratio\<close> is \<open>positive / total_reviews\<close>
  when \<open>total_reviews\<close> is above zero, and it is NULL if and only if \<open>total_reviews\<close> is
  NULL, zero or negative.
\<close>

theorem reviews_total_and_ratio:
  "(\<forall>a b. p = Some a \<and> n = Some b \<longrightarrow>
       total_reviews p n = Some (a + b)
       \<and> (- (2 ^ 63) \<le> sint a + sint b \<and> sint a + sint b < 2 ^ 63 \<longrightarrow>
            sint (a + b) = sint a + sint b))
   \<and> (p = None \<or> n = None \<longrightarrow> total_reviews p n = None)
   \<and> (\<forall>a t. p = Some a \<and> total_reviews p n = Some t \<and> 0 < sint t \<longrightarrow>
         positive_ratio p (total_reviews p n) = Some (of_int (sint a) / of_int (sint t)))
   \<and> (positive_ratio p (total_reviews p n) = None \<longleftrightarrow>
        total_reviews p n = None \<or> (\<exists>t. total_reviews p n = Some t \<and> sint t \<le> 0))"
  by (auto simp: total_reviews_def positive_ratio_def sint_add_in_range split: option.splits)

text \<open>90 positive and 10 negative reviews: 100 reviews and a ratio of 9/10.\<close>

theorem reviews_total_and_ratio_witness:
  "total_reviews (Some 90) (Some 10) = Some 100
   \<and> positive_ratio (Some 90) (total_reviews (Some 90) (Some 10)) = Some (9 / 10)"
  using reviews_total_and_ratio [of "Some 90" "Some 10"] by simp

text \<open>
  C3 as stated fails: with \<open>positive = -5\<close> and \<open>negative = 2\<close> the total is \<open>-3\<close>, neither
  NULL nor zero, and the ratio is NULL.
\<close>

theorem negative_total_has_null_ratio:
  "total_reviews (Some (- 5)) (Some 2) = Some (- 3)
   \<and> total_reviews (Some (- 5)) (Some 2) \<noteq> None
   \<and> total_reviews (Some (- 5)) (Some 2) \<noteq> Some 0
   \<and> positive_ratio (Some (- 5)) (total_reviews (Some (- 5)) (Some 2)) = None"
  by (simp add: total_reviews_def positive_ratio_def)

section \<open>Properties of the release date\<close>

lemma replace_all_comma: "replace_all pat_comma [] s = remove_commas s"
  by (induction s) (simp_all add: pat_comma_def remove_commas_def capture_def)

lemma replace_all_slash: "replace_all pat_slash [RChr CHR ''-''] s = slashes_to_dashes s"
  by (induction s) (simp_all add: pat_slash_def slashes_to_dashes_def capture_def)

lemma rmatch_pad:
  "rmatch pat_pad s =
     (case s of [] \<Rightarrow> None
      | c # t \<Rightarrow> if c = CHR ''-'' \<and> single_digit_next t then Some ([hd t], tl t) else None)"
  by (auto simp: pat_pad_def single_digit_next_def capture_def split: list.splits)

lemma replace_all_pad: "replace_all pat_pad rep_pad s = pad_single_digits s"
proof (induction s rule: pad_single_digits.induct)
  case 1
  then show ?case by (simp add: rmatch_pad)
next
  case (2 c)
  then show ?case by (simp add: rmatch_pad single_digit_next_def)
next
  case (3 c d rest)
  then show ?case by (simp add: rmatch_pad rep_pad_def)
qed


lemma release_date_clean_eq:
  "release_date_clean raw =
     map_option (\<lambda>s. pad_single_digits (slashes_to_dashes (remove_commas s))) raw"
  by (cases raw)
    (simp_all add: release_date_clean_def regexp_replace_def replace_all_comma
      replace_all_slash replace_all_pad)

lemma pad_other: "c \<noteq> CHR ''-'' \<Longrightarrow> pad_single_digits (c # s) = c # pad_single_digits s"
  by (cases s) simp_all

lemma pad_Nil_iff: "pad_single_digits s = [] \<longleftrightarrow> s = []"
  by (induction s rule: pad_single_digits.induct) simp_all

lemma dash_not_digit: "\<not> is_digit CHR ''-''"
  by (simp add: is_digit_def)

lemma zero_is_digit: "is_digit CHR ''0''"
  by (simp add: is_digit_def)

lemma pad_hd: "s \<noteq> [] \<Longrightarrow> hd (pad_single_digits s) = hd s"
  by (induction s rule: pad_single_digits.induct) simp_all

lemma single_digit_next_pad: "single_digit_next (pad_single_digits s) = single_digit_next s"
proof (cases s)
  case Nil
  then show ?thesis by simp
next
  case (Cons d rest)
  show ?thesis
  proof (cases "d = CHR ''-''")
    case True
    have "hd (pad_single_digits s) = CHR ''-''"
      using pad_hd [of s] Cons True by simp
    moreover have "pad_single_digits s \<noteq> []"
      using Cons by (simp add: pad_Nil_iff)
    ultimately have "\<not> single_digit_next (pad_single_digits s)"
      by (cases "pad_single_digits s") (simp_all add: single_digit_next_def dash_not_digit)
    moreover have "\<not> single_digit_next s"
      using Cons True by (simp add: single_digit_next_def dash_not_digit)
    ultimately show ?thesis by simp
  next
    case False
    then have eq: "pad_single_digits s = d # pad_single_digits rest"
      using Cons by (simp add: pad_other)
    show ?thesis
    proof (cases rest)
      case Nil
      then show ?thesis using eq Cons by (simp add: single_digit_next_def)
    next
      case (Cons e rest')
      then have "pad_single_digits rest \<noteq> []" and "hd (pad_single_digits rest) = e"
        using pad_hd [of rest] by (simp_all add: pad_Nil_iff)
      then show ?thesis
        using eq \<open>s = d # rest\<close> Cons
        by (cases "pad_single_digits rest") (simp_all add: single_digit_next_def)
    qed
  qed
qed

lemma pad_idem: "pad_single_digits (pad_single_digits s) = pad_single_digits s"
proof (induction s rule: pad_single_digits.induct)
  case 1
  then show ?case by simp
next
  case (2 c)
  then show ?case by simp
next
  case (3 c d rest)
  show ?case
  proof (cases "c = CHR ''-'' \<and> single_digit_next (d # rest)")
    case True
    then have d: "is_digit d" and nd: "d \<noteq> CHR ''-''"
      by (auto simp: single_digit_next_def dash_not_digit)
    have "pad_single_digits (CHR ''-'' # CHR ''0'' # d # pad_single_digits rest)
          = CHR ''-'' # pad_single_digits (CHR ''0'' # d # pad_single_digits rest)"
      using d by (simp add: single_digit_next_def)
    also have "\<dots> = CHR ''-'' # CHR ''0'' # d # pad_single_digits (pad_single_digits rest)"
      using nd by (simp add: pad_other)
    finally show ?thesis using True 3 by simp
  next
    case False
    then have eq: "pad_single_digits (c # d # rest) = c # pad_single_digits (d # rest)"
      by auto
    have ne: "pad_single_digits (d # rest) \<noteq> []"
      by (simp add: pad_Nil_iff)
    have "\<not> (c = CHR ''-'' \<and> single_digit_next (pad_single_digits (d # rest)))"
      using False by (simp add: single_digit_next_pad)
    then have step: "pad_single_digits (c # pad_single_digits (d # rest))
               = c # pad_single_digits (pad_single_digits (d # rest))"
      using ne by (cases "pad_single_digits (d # rest)") auto
    have "pad_single_digits (pad_single_digits (c # d # rest))
          = pad_single_digits (c # pad_single_digits (d # rest))"
      by (simp only: eq)
    also have "\<dots> = c # pad_single_digits (pad_single_digits (d # rest))"
      by (rule step)
    also have "\<dots> = c # pad_single_digits (d # rest)"
      using 3(2) [OF False] by simp
    also have "\<dots> = pad_single_digits (c # d # rest)"
      by (simp only: eq)
    finally show ?thesis .
  qed
qed

lemma set_pad: "set (pad_single_digits s) \<subseteq> insert CHR ''0'' (set s)"
  by (induction s rule: pad_single_digits.induct) auto

lemma set_slashes: "CHR ''/'' \<notin> set (slashes_to_dashes s)"
  by (auto simp: slashes_to_dashes_def)

lemma set_slashes_comma: "CHR '','' \<in> set (slashes_to_dashes s) \<Longrightarrow> CHR '','' \<in> set s"
  by (auto simp: slashes_to_dashes_def split: if_splits)

lemma remove_commas_id: "CHR '','' \<notin> set s \<Longrightarrow> remove_commas s = s"
  by (induction s) (auto simp: remove_commas_def)

lemma slashes_id: "CHR ''/'' \<notin> set s \<Longrightarrow> slashes_to_dashes s = s"
  by (induction s) (auto simp: slashes_to_dashes_def)

lemma clean_string_idem:
  "pad_single_digits (slashes_to_dashes (remove_commas
     (pad_single_digits (slashes_to_dashes (remove_commas s)))))
   = pad_single_digits (slashes_to_dashes (remove_commas s))"
proof -
  let ?t = "slashes_to_dashes (remove_commas s)"
  have "CHR '','' \<notin> set ?t"
    using set_slashes_comma [of "remove_commas s"] by (auto simp: remove_commas_def)
  then have c: "CHR '','' \<notin> set (pad_single_digits ?t)"
    using set_pad [of ?t] by auto
  have "CHR ''/'' \<notin> set ?t" by (rule set_slashes)
  then have sl: "CHR ''/'' \<notin> set (pad_single_digits ?t)"
    using set_pad [of ?t] by auto
  show ?thesis
    by (simp add: remove_commas_id [OF c] slashes_id [OF sl] pad_idem)
qed

lemma coalesce_first_answer:
  "coalesce (map g fs) =
     (case find (\<lambda>f. g f \<noteq> Inr None) fs of None \<Rightarrow> Inr None | Some f \<Rightarrow> g f)"
proof (induction fs)
  case Nil
  then show ?case by simp
next
  case (Cons f fs)
  show ?case
  proof (cases "g f")
    case (Inl e)
    then show ?thesis by simp
  next
    case (Inr v)
    then show ?thesis using Cons by (cases v) simp_all
  qed
qed

lemma release_date_parsed_first_answer:
  "release_date_parsed td (Some s) =
     (case find (\<lambda>f. td s f \<noteq> Inr None) date_formats of
        None \<Rightarrow> Inr None
      | Some f \<Rightarrow> td s f)"
proof -
  have "release_date_parsed td (Some s) = coalesce (map (td s) date_formats)"
    by (simp add: release_date_parsed_def date_formats_def to_date_col_def)
  then show ?thesis by (simp only: coalesce_first_answer)
qed

lemma to_date_2000_11_01:
  "to_date ''2000-11-01'' fmt_yyyy_MM_dd = Inr (Some \<lparr>year = 2000, month = 11, day = 1\<rparr>)"
  "to_date ''2000-11-01'' fmt_MMM_d_yyyy = Inr None"
  "to_date ''2000-11-01'' fmt_MMM_dd_yyyy = Inr None"
  by code_simp+

lemma to_date_5_oct_2008:
  "to_date ''5 Oct 2008'' fmt_MMM_d_yyyy = Inr None"
  "to_date ''5 Oct 2008'' fmt_MMM_dd_yyyy = Inr None"
  "to_date ''5 Oct 2008'' fmt_yyyy_MM_dd = Inr None"
  "to_date ''5 Oct 2008'' fmt_dd_MMM_yyyy = Inl SparkUpgradeException"
  "to_date ''5 Oct 2008'' fmt_d_MMM_yyyy = Inr (Some \<lparr>year = 2008, month = 10, day = 5\<rparr>)"
  by code_simp+

text \<open>
  C1, at the text \<open>5 Oct 2008\<close>. The cleaning leaves the text as it is. The formats
  \<open>MMM d yyyy\<close>, \<open>MMM dd yyyy\<close> and \<open>yyyy-MM-dd\<close> answer NULL. The fourth, \<open>dd MMM yyyy\<close>,
  raises: the new parser wants two digits for the day, the legacy parser reads the
  text, and the library then raises \<open>SparkUpgradeException\<close>. So the parsed column
  raises, and the pipeline with it, although the fifth format \<open>d MMM yyyy\<close> reads the
  text as 5 October 2008: the result is neither that date nor NULL.
\<close>

theorem one_digit_day_raises:
  "release_date_clean (Some ''5 Oct 2008'') = Some ''5 Oct 2008''
   \<and> map (to_date ''5 Oct 2008'') date_formats
       = [Inr None, Inr None, Inr None, Inl SparkUpgradeException,
          Inr (Some \<lparr>year = 2008, month = 10, day = 5\<rparr>)]
   \<and> release_date_parsed to_date (Some ''5 Oct 2008'') = Inl SparkUpgradeException
   \<and> release_date_pipeline to_date (Some ''5 Oct 2008'') = Inl SparkUpgradeException"
proof -
  have clean: "release_date_clean (Some ''5 Oct 2008'') = Some ''5 Oct 2008''"
    by (simp add: release_date_clean_eq remove_commas_def slashes_to_dashes_def)
  have parsed: "release_date_parsed to_date (Some ''5 Oct 2008'') = Inl SparkUpgradeException"
    by (simp add: release_date_parsed_def to_date_col_def to_date_5_oct_2008)
  show ?thesis
    by (simp add: clean parsed release_date_pipeline_def date_formats_def to_date_5_oct_2008)
qed

text \<open>
  C9. Cleaning a release date twice gives what cleaning it once gives, so a cleaned
  text is left unchanged by the cleaning. The text \<open>2000-11-01\<close> is unchanged by it;
  the formats \<open>MMM d yyyy\<close> and \<open>MMM dd yyyy\<close> do not parse it, \<open>yyyy-MM-dd\<close> does,
  and the pipeline gives 1 November 2000.
\<close>

theorem release_date_clean_idempotent:
  "release_date_clean (release_date_clean raw) = release_date_clean raw
   \<and> release_date_clean (Some ''2000-11-01'') = Some ''2000-11-01''
   \<and> to_date ''2000-11-01'' fmt_MMM_d_yyyy = Inr None
   \<and> to_date ''2000-11-01'' fmt_MMM_dd_yyyy = Inr None
   \<and> to_date ''2000-11-01'' fmt_yyyy_MM_dd = Inr (Some \<lparr>year = 2000, month = 11, day = 1\<rparr>)
   \<and> release_date_pipeline to_date (Some ''2000-11-01'')
       = Inr (Some \<lparr>year = 2000, month = 11, day = 1\<rparr>)"
proof -
  have idem: "release_date_clean (release_date_clean raw) = release_date_clean raw"
    by (cases raw) (simp_all add: release_date_clean_eq clean_string_idem)
  have fixed: "release_date_clean (Some ''2000-11-01'') = Some ''2000-11-01''"
    by (simp add: release_date_clean_eq remove_commas_def slashes_to_dashes_def
        single_digit_next_def is_digit_def)
  have "release_date_pipeline to_date (Some ''2000-11-01'')
       = Inr (Some \<lparr>year = 2000, month = 11, day = 1\<rparr>)"
    unfolding release_date_pipeline_def fixed
    by (simp add: release_date_safety_def release_date_parsed_def to_date_col_def
        to_date_2000_11_01)
  then show ?thesis using idem fixed to_date_2000_11_01 by simp
qed

text \<open>\<open>2000/11/1\<close> is cleaned to \<open>2000-11-01\<close>, and cleaning that again changes nothing.\<close>

theorem release_date_clean_idempotent_witness:
  "release_date_clean (Some ''2000/11/1'') = Some ''2000-11-01''
   \<and> release_date_clean (release_date_clean (Some ''2000/11/1'')) = Some ''2000-11-01''"
proof -
  have "release_date_clean (Some ''2000/11/1'') = Some ''2000-11-01''"
    by (simp add: release_date_clean_eq remove_commas_def slashes_to_dashes_def
        single_digit_next_def is_digit_def)
  then show ?thesis
    using release_date_clean_idempotent [of "Some ''2000/11/1''"] by simp
qed

section \<open>Properties of the genres\<close>

lemma rmatch_spaces: "rmatch [(Space, Many0, False)] s = Some ([], dropWhile is_space s)"
  by (induction s) (simp_all add: capture_def)

lemma rmatch_genre_sep:
  "rmatch pat_genre_sep (x # xs) =
     (if x = CHR '','' then Some ([], dropWhile is_space xs) else None)"
  by (simp add: pat_genre_sep_def rmatch_spaces capture_def)

lemma split_from_genre_sep: "split_from pat_genre_sep tok s = split_comma_ws tok s"
  by (induction tok s rule: split_comma_ws.induct)
    (simp_all add: rmatch_genre_sep length_dropWhile_le less_Suc_eq_le)

lemma genres_of_eq:
  "genres_of raw =
     (case raw of None \<Rightarrow> [] | Some s \<Rightarrow> filter (\<lambda>g. g \<noteq> []) (split_comma_ws [] s))"
  by (cases raw)
    (simp_all add: genres_of_def genre_array_def split_col_def explode_def split_from_genre_sep)

lemma split_comma_ws_no_comma:
  "CHR '','' \<notin> set tok \<Longrightarrow> g \<in> set (split_comma_ws tok s) \<Longrightarrow> CHR '','' \<notin> set g"
  by (induction tok s rule: split_comma_ws.induct) (auto split: if_splits)

lemma split_comma_ws_hd:
  "hd (split_comma_ws tok s) = tok @ takeWhile (\<lambda>c. c \<noteq> CHR '','') s"
  by (induction tok s rule: split_comma_ws.induct) simp_all

lemma split_comma_ws_not_Nil: "split_comma_ws tok s \<noteq> []"
  by (induction tok s rule: split_comma_ws.induct) simp_all

lemma no_space_after_dropWhile:
  "takeWhile (\<lambda>c. c \<noteq> CHR '','') (dropWhile is_space xs) = []
   \<or> \<not> is_space (hd (takeWhile (\<lambda>c. c \<noteq> CHR '','') (dropWhile is_space xs)))"
proof (cases "dropWhile is_space xs")
  case Nil
  show ?thesis unfolding Nil by simp
next
  case (Cons y ys)
  then have "\<not> is_space y"
    using hd_dropWhile [of is_space xs] by force
  then show ?thesis unfolding Cons by simp
qed

lemma split_comma_ws_tl:
  "g \<in> set (tl (split_comma_ws tok s)) \<Longrightarrow> g = [] \<or> \<not> is_space (hd g)"
proof (induction tok s rule: split_comma_ws.induct)
  case (1 tok)
  then show ?case by simp
next
  case (2 tok x xs)
  show ?case
  proof (cases "x = CHR '',''")
    case True
    let ?L = "split_comma_ws [] (dropWhile is_space xs)"
    from 2(3) True have "g \<in> set ?L" by simp
    moreover have "?L = hd ?L # tl ?L"
      using split_comma_ws_not_Nil [of "[]" "dropWhile is_space xs"] by simp
    ultimately have "g = hd ?L \<or> g \<in> set (tl ?L)"
      by (metis set_ConsD)
    then show ?thesis
    proof
      assume "g = hd ?L"
      then show ?thesis
        using no_space_after_dropWhile [of xs] by (simp add: split_comma_ws_hd)
    next
      assume "g \<in> set (tl ?L)"
      then show ?thesis using 2(1) True by simp
    qed
  next
    case False
    then show ?thesis using 2(2) 2(3) by simp
  qed
qed

text \<open>
  C4, as the code has it. The genres of a game are the pieces of \<open>genre_raw\<close> between
  its separators, a separator being a comma with all the whitespace that follows it,
  without the empty pieces; nothing else is trimmed. So no genre is empty, no genre has
  a comma, and no piece after the first begins with whitespace; a piece keeps the
  whitespace before a comma or at the end of the text, and the first piece keeps the
  whitespace at the start. The text \<open>Action, Indie ,RPG\<close> gives \<open>Action\<close>, \<open>Indie \<close>
  (with its space) and \<open>RPG\<close>.
\<close>

theorem genres_split_without_trim:
  "genres_of None = []
   \<and> genres_of (Some s) = filter (\<lambda>g. g \<noteq> []) (split_comma_ws [] s)
   \<and> [] \<notin> set (genres_of raw)
   \<and> (\<forall>g \<in> set (genres_of raw). CHR '','' \<notin> set g)
   \<and> (\<forall>g \<in> set (tl (split_comma_ws [] s)). g = [] \<or> \<not> is_space (hd g))
   \<and> genres_of (Some ''Action, Indie ,RPG'') = [''Action'', ''Indie '', ''RPG'']"
proof -
  have a: "[] \<notin> set (genres_of raw)"
    by (simp add: genres_of_def)
  have b: "\<forall>g \<in> set (genres_of raw). CHR '','' \<notin> set g"
    by (cases raw) (auto simp: genres_of_eq dest: split_comma_ws_no_comma [rotated])
  have c: "\<forall>g \<in> set (tl (split_comma_ws [] s)). g = [] \<or> \<not> is_space (hd g)"
    using split_comma_ws_tl by blast
  have d: "genres_of (Some ''Action, Indie ,RPG'') = [''Action'', ''Indie '', ''RPG'']"
    by (simp add: genres_of_eq is_space_def)
  show ?thesis using a b c d by (simp add: genres_of_eq)
qed

text \<open>
  A text with two spaces after a comma, two commas in a row and a space at the end.
\<close>

theorem genres_split_without_trim_witness:
  "genres_of (Some ''RPG,  Indie,,Action '') = [''RPG'', ''Indie'', ''Action '']
   \<and> [] \<notin> set (genres_of (Some ''RPG,  Indie,,Action ''))"
proof -
  have "genres_of (Some ''RPG,  Indie,,Action '') = [''RPG'', ''Indie'', ''Action '']"
    using genres_split_without_trim [of "''RPG,  Indie,,Action ''" "Some ''RPG,  Indie,,Action ''"]
    by (simp add: is_space_def)
  then show ?thesis
    using genres_split_without_trim [of "''RPG,  Indie,,Action ''" "Some ''RPG,  Indie,,Action ''"]
    by simp
qed

text \<open>
  C4 as stated fails: \<open>Action, Indie ,RPG\<close> does not give \<open>Action\<close>, \<open>Indie\<close>, \<open>RPG\<close>;
  its second genre is \<open>Indie \<close>, which ends with a space.
\<close>

theorem genres_keep_trailing_space:
  "genres_of (Some ''Action, Indie ,RPG'') \<noteq> [''Action'', ''Indie'', ''RPG'']
   \<and> ''Indie '' \<in> set (genres_of (Some ''Action, Indie ,RPG''))
   \<and> is_space (last ''Indie '')"
  by (simp add: genres_of_eq is_space_def)

lemma set_genres_exploded_df:
  "set (genres_exploded_df df) = {(r, g). r \<in> set df \<and> g \<in> set (genres_of (genre_raw r))}"
  by (auto simp: genres_exploded_df_def)

text \<open>
  C7. A game whose \<open>genre_raw\<close> is NULL or the empty text has no genre, and no row of
  \<open>genres_exploded_df\<close>, of whatever table, belongs to it: the table is the same with
  the game and without it. (For the empty text \<open>genre_array\<close> holds one empty piece,
  which the filter of the exploded table removes.)
\<close>

theorem empty_genre_gives_no_row:
  assumes "genre_raw r = None \<or> genre_raw r = Some []"
  shows "genres_of (genre_raw r) = []
         \<and> genres_exploded_df [r] = []
         \<and> (\<forall>g. (r, g) \<notin> set (genres_exploded_df df))
         \<and> genres_exploded_df (before @ [r] @ after) = genres_exploded_df (before @ after)"
proof -
  have e: "genres_of (genre_raw r) = []"
    using assms by (auto simp: genres_of_eq)
  then show ?thesis
    by (simp add: set_genres_exploded_df) (simp add: genres_exploded_df_def)
qed

text \<open>
  A record without \<open>data\<close> has a NULL \<open>genre_raw\<close> and gives no row.
\<close>

theorem empty_genre_gives_no_row_witness:
  "genre_raw (build_games_row row_null_data) = None
   \<and> genres_exploded_df [build_games_row row_null_data] = []"
proof -
  have h: "genre_raw (build_games_row row_null_data) = None"
    by (simp add: build_games_row_def row_null_data_def col_data_def)
  then have "genre_raw (build_games_row row_null_data) = None
      \<or> genre_raw (build_games_row row_null_data) = Some []" by simp
  from empty_genre_gives_no_row [OF this] h show ?thesis by simp
qed

section \<open>Properties of the numeric columns\<close>

lemma rmatch_digits_star:
  "\<forall>c \<in> set ds. is_digit c \<Longrightarrow> post = [] \<or> \<not> is_digit (hd post) \<Longrightarrow>
   rmatch [(Digit, Many0, True)] (ds @ post) = Some (ds, post)"
proof (induction ds)
  case Nil
  then show ?case by (cases post) simp_all
next
  case (Cons d ds)
  then show ?case by (simp add: capture_def)
qed

lemma rmatch_pat_digits:
  "ds \<noteq> [] \<Longrightarrow> \<forall>c \<in> set ds. is_digit c \<Longrightarrow> post = [] \<or> \<not> is_digit (hd post) \<Longrightarrow>
   rmatch pat_digits (ds @ post) = Some (ds, post)"
  by (cases ds) (simp_all add: pat_digits_def rmatch_digits_star capture_def)

lemma rmatch_pat_digits_None: "\<not> is_digit x \<Longrightarrow> rmatch pat_digits (x # xs) = None"
  by (simp add: pat_digits_def)

lemma find_first_skip:
  "\<forall>c \<in> set pre. \<not> is_digit c \<Longrightarrow>
   find_first pat_digits (pre @ rest) = find_first pat_digits rest"
  by (induction pre) (simp_all add: rmatch_pat_digits_None)

lemma find_first_no_digit:
  "\<forall>c \<in> set s. \<not> is_digit c \<Longrightarrow> find_first pat_digits s = None"
  by (induction s) (simp_all add: rmatch_pat_digits_None pat_digits_def)

lemma find_first_digits:
  assumes "\<forall>c \<in> set pre. \<not> is_digit c" and "ds \<noteq> []" and "\<forall>c \<in> set ds. is_digit c"
    and "post = [] \<or> \<not> is_digit (hd post)"
  shows "find_first pat_digits (pre @ ds @ post) = Some ds"
proof -
  obtain d ds' where ds: "ds = d # ds'" using assms(2) by (cases ds) auto
  have "find_first pat_digits (ds @ post) = Some ds"
    using rmatch_pat_digits [OF assms(2) assms(3) assms(4)] by (simp add: ds)
  then show ?thesis using find_first_skip [OF assms(1)] by simp
qed

lemma digit_not_ws: "is_digit c \<Longrightarrow> \<not> is_ws_or_ctl c"
  by (auto simp: is_digit_def is_ws_or_ctl_def)

lemma digit_not_sign: "is_digit c \<Longrightarrow> c \<noteq> CHR ''-'' \<and> c \<noteq> CHR ''+'' \<and> c \<noteq> CHR ''.''"
  by (auto simp: is_digit_def)

lemma trim_ws_digits:
  assumes "ds \<noteq> []" and "\<forall>c \<in> set ds. is_digit c"
  shows "trim_ws ds = ds"
proof -
  have "\<not> is_ws_or_ctl (hd ds)"
    using assms by (simp add: digit_not_ws)
  then have a: "dropWhile is_ws_or_ctl ds = ds"
    using assms(1) by (cases ds) simp_all
  have "\<not> is_ws_or_ctl (hd (rev ds))"
    using assms by (simp add: digit_not_ws hd_rev)
  then have "dropWhile is_ws_or_ctl (rev ds) = rev ds"
    using assms(1) by (cases "rev ds") simp_all
  then show ?thesis by (simp add: trim_ws_def a)
qed

lemma parse_integral_digits:
  assumes "ds \<noteq> []" and "\<forall>c \<in> set ds. is_digit c"
  shows "parse_integral ds = Some (int (digits_val ds))"
proof -
  have hd: "hd ds \<noteq> CHR ''-''" "hd ds \<noteq> CHR ''+''"
    using assms digit_not_sign [of "hd ds"] by simp_all
  have tw: "takeWhile (\<lambda>c. c \<noteq> CHR ''.'') ds = ds"
    using assms(2) digit_not_sign by simp
  have la: "list_all is_digit ds"
    using assms(2) by (simp add: list_all_iff)
  show ?thesis
    using assms(1) hd la
    by (simp add: parse_integral_def trim_ws_digits [OF assms] tw Let_def)
qed

lemma parse_integral_empty: "parse_integral [] = None"
  by (simp add: parse_integral_def trim_ws_def)

lemma sint_long_of_int:
  "- (2 ^ 63) \<le> v \<Longrightarrow> v < 2 ^ 63 \<Longrightarrow> sint (word_of_int v :: long) = v"
  by (simp add: sint_sbintrunc' signed_take_bit_int_eq_self)

lemma cast_long_value:
  "cast_long col = Some v \<Longrightarrow> \<exists>t. col = Some t \<and> parse_integral t = Some (sint v)"
  by (cases col)
    (auto simp: cast_long_def sint_long_of_int split: bind_splits if_splits)

text \<open>
  C5. Every numeric column is a value of its type or NULL, for any text. The age is
  NULL for a NULL text and for a text without a digit (the extraction gives the empty
  text, whose cast is NULL); for a text with a digit the extraction gives the first run
  of digits, wherever it stands, and the age is the number that run writes, or NULL
  when the number does not fit an integer. \<open>positive\<close> and \<open>negative\<close> are NULL or the
  long that the raw text writes. \<open>price\<close>, \<open>initialprice\<close> and \<open>discount\<close> are NULL for a
  NULL text and otherwise what the reading of the text as a double gives, NULL when it
  is not a number.
\<close>

theorem numeric_casts_are_total:
  "required_age None = None
   \<and> ((\<forall>c \<in> set s. \<not> is_digit c) \<longrightarrow>
        regexp_extract (Some s) pat_digits = Some [] \<and> required_age (Some s) = None)
   \<and> ((\<forall>c \<in> set pre. \<not> is_digit c) \<and> ds \<noteq> [] \<and> (\<forall>c \<in> set ds. is_digit c)
        \<and> (post = [] \<or> \<not> is_digit (hd post)) \<longrightarrow>
        regexp_extract (Some (pre @ ds @ post)) pat_digits = Some ds
        \<and> required_age (Some (pre @ ds @ post))
            = (if digits_val ds < 2 ^ 31 then Some (of_nat (digits_val ds)) else None))
   \<and> (positive r = None
        \<or> (\<exists>v t. positive r = Some v \<and> positive_raw r = Some t \<and> parse_integral t = Some (sint v)))
   \<and> (negative r = None
        \<or> (\<exists>v t. negative r = Some v \<and> negative_raw r = Some t \<and> parse_integral t = Some (sint v)))
   \<and> price parse_double r = (case price_raw r of None \<Rightarrow> None | Some t \<Rightarrow> parse_double t)
   \<and> initialprice parse_double r
        = (case initialprice_raw r of None \<Rightarrow> None | Some t \<Rightarrow> parse_double t)
   \<and> discount parse_double r
        = (case discount_raw r of None \<Rightarrow> None | Some t \<Rightarrow> parse_double t)"
proof -
  have a: "required_age None = None"
    by (simp add: required_age_def required_age_str_def regexp_extract_def cast_integer_def)
  have b: "regexp_extract (Some s) pat_digits = Some [] \<and> required_age (Some s) = None"
    if "\<forall>c \<in> set s. \<not> is_digit c"
    using find_first_no_digit [OF that]
    by (simp add: required_age_def required_age_str_def regexp_extract_def cast_integer_def
        parse_integral_empty)
  have c: "regexp_extract (Some (pre @ ds @ post)) pat_digits = Some ds
        \<and> required_age (Some (pre @ ds @ post))
            = (if digits_val ds < 2 ^ 31 then Some (of_nat (digits_val ds)) else None)"
    if h: "\<forall>c \<in> set pre. \<not> is_digit c" "ds \<noteq> []" "\<forall>c \<in> set ds. is_digit c"
      "post = [] \<or> \<not> is_digit (hd post)"
  proof -
    have e: "regexp_extract (Some (pre @ ds @ post)) pat_digits = Some ds"
      using find_first_digits [OF h] by (simp add: regexp_extract_def)
    have "(int (digits_val ds) < 2 ^ 31) = (digits_val ds < 2 ^ 31)"
      by (metis of_nat_less_iff of_nat_numeral of_nat_power)
    then have "cast_integer (Some ds)
          = (if digits_val ds < 2 ^ 31 then Some (of_nat (digits_val ds)) else None)"
      by (simp add: cast_integer_def parse_integral_digits [OF h(2) h(3)])
    then show ?thesis using e by (simp add: required_age_def required_age_str_def)
  qed
  have d: "positive r = None
        \<or> (\<exists>v t. positive r = Some v \<and> positive_raw r = Some t \<and> parse_integral t = Some (sint v))"
    using cast_long_value [of "positive_raw r"] by (cases "positive r") (auto simp: positive_def)
  have e: "negative r = None
        \<or> (\<exists>v t. negative r = Some v \<and> negative_raw r = Some t \<and> parse_integral t = Some (sint v))"
    using cast_long_value [of "negative_raw r"] by (cases "negative r") (auto simp: negative_def)
  have f: "price parse_double r = (case price_raw r of None \<Rightarrow> None | Some t \<Rightarrow> parse_double t)"
    "initialprice parse_double r
        = (case initialprice_raw r of None \<Rightarrow> None | Some t \<Rightarrow> parse_double t)"
    "discount parse_double r
        = (case discount_raw r of None \<Rightarrow> None | Some t \<Rightarrow> parse_double t)"
    by (simp_all add: price_def initialprice_def discount_def cast_double_def split: option.splits)
  show ?thesis using a b c d e f by blast
qed

lemma age_18:
  "(\<forall>c \<in> set ''PEGI ''. \<not> is_digit c) \<and> ''18'' \<noteq> [] \<and> (\<forall>c \<in> set ''18''. is_digit c)
   \<and> (''+ years'' = [] \<or> \<not> is_digit (hd ''+ years''))"
  by (simp add: is_digit_def)

text \<open>
  The age of \<open>PEGI 18+ years\<close> is 18, the age of \<open>none\<close> is NULL, and the text \<open>90\<close> is
  the long 90.
\<close>

theorem numeric_casts_are_total_witness:
  "required_age (Some ''PEGI 18+ years'') = Some 18
   \<and> required_age (Some ''none'') = None
   \<and> positive (build_games_row row_with_id) = Some 90"
proof -
  have v: "digits_val ''18'' = 18" by (simp add: digits_val_def)
  have n: "\<forall>c \<in> set ''none''. \<not> is_digit c" by (simp add: is_digit_def)
  have p: "positive (build_games_row row_with_id) = Some 90"
    by (simp add: positive_def build_games_row_def row_with_id_def no_linux_flag_def
        no_platforms_def col_data_def cast_long_def parse_integral_def trim_ws_def
        is_ws_or_ctl_def is_digit_def digits_val_def)
  show ?thesis
    using numeric_casts_are_total [where s = "''none''" and pre = "''PEGI ''" and ds = "''18''"
        and post = "''+ years''" and r = "build_games_row row_with_id"
        and parse_double = "\<lambda>t. None :: unit option"] age_18 n v p
    by simp
qed

end
